theory Spec2Isabelle
  imports Complex_Main
begin

section \<open>Python primitives used by the scripts\<close>

text \<open>
  The scripts are Python. Lists are HOL lists, Python's unbounded integers are \<open>int\<close>
  (indices and lengths, which are never negative here, are \<open>nat\<close>), strings are
  \<open>string\<close>, and an exception is a value on the left of a sum.
\<close>

datatype py_error = ValueError | UnicodeDecodeError | AttributeError

text \<open>
  \<^verbatim>\<open>range(i, n, step)\<close> for a positive step: the indices \<open>i, i + step, ...\<close> below
  \<open>n\<close>. The guard \<open>0 < step\<close> is what makes the recursion terminate; the
  non-positive steps are decided in \<open>py_range\<close>.
\<close>

function range_from :: "nat \<Rightarrow> nat \<Rightarrow> nat \<Rightarrow> nat list" where
  "range_from i n step = (if 0 < step \<and> i < n then i # range_from (i + step) n step else [])"
  by pat_completeness auto
termination
  by (relation "measure (\<lambda>(i, n, step). n - i)") auto

declare range_from.simps [simp del]

text \<open>
  \<^verbatim>\<open>range(0, n, step)\<close> with \<open>n = len(...)\<close>: a step of zero raises ValueError, a
  negative step gives the empty range (the start 0 is not above the stop \<open>n \<ge> 0\<close>).
\<close>

definition py_range :: "nat \<Rightarrow> int \<Rightarrow> py_error + nat list" where
  "py_range n step =
     (if step = 0 then Inl ValueError
      else if step < 0 then Inr []
      else Inr (range_from 0 n (nat step)))"

text \<open>The slice \<^verbatim>\<open>xs[i:i + b]\<close> for indices that are not negative.\<close>

definition py_slice :: "'a list \<Rightarrow> nat \<Rightarrow> nat \<Rightarrow> 'a list" where
  "py_slice xs i b = take b (drop i xs)"

text \<open>
  The batching step of both \<^verbatim>\<open>generate_embeddings\<close> (over the abstracts) and
  \<^verbatim>\<open>bulk_index_papers\<close> (over the papers):
  \<^verbatim>\<open>for i in range(0, len(xs), batch_size): batch = xs[i:i + batch_size]\<close>.
  \<open>batches\<close> is the list of the batches the loop body sees, in order.
\<close>

definition batches_at :: "'a list \<Rightarrow> nat \<Rightarrow> nat list \<Rightarrow> 'a list list" where
  "batches_at xs b starts = map (\<lambda>i. py_slice xs i b) starts"

definition batches :: "'a list \<Rightarrow> nat \<Rightarrow> 'a list list" where
  "batches xs b = batches_at xs b (range_from 0 (length xs) b)"

text \<open>
  The same step for the \<^verbatim>\<open>batch_size\<close> the functions receive, a Python integer: the
  batches of the loop, or the ValueError of \<^verbatim>\<open>range\<close>.
\<close>

definition py_batches :: "'a list \<Rightarrow> int \<Rightarrow> py_error + 'a list list" where
  "py_batches xs batch_size =
     (case py_range (length xs) batch_size of
        Inl e \<Rightarrow> Inl e
      | Inr starts \<Rightarrow> Inr (batches_at xs (nat batch_size) starts))"

section \<open>download_dataset.py: the corpus filter\<close>

text \<open>
  A line of the input file is parsed by \<^verbatim>\<open>json.loads\<close>, which either raises
  JSONDecodeError or returns the record. The parser is a parameter
  \<open>json_loads :: 'l \<Rightarrow> raw_paper option\<close> (\<open>None\<close>: JSONDecodeError). A parsed
  line is a JSON object of the arXiv metadata snapshot: each of the fields the filter
  reads may be absent (\<^verbatim>\<open>paper.get(key, default)\<close>), and when present is a string;
  \<^verbatim>\<open>categories\<close> is a string of tags separated by white space or already a list
  of tags (\<^verbatim>\<open>isinstance(categories, str)\<close>).
\<close>

datatype categories_field = CatString string | CatList "string list"

record raw_paper =
  raw_id :: "string option"
  raw_title :: "string option"
  raw_abstract :: "string option"
  raw_categories :: "categories_field option"
  raw_authors :: "string option"
  raw_update_date :: "string option"

record cs_paper =
  paper_id :: string
  title :: string
  abstract :: string
  categories :: "string list"
  authors :: string
  update_date :: string

text \<open>\<^verbatim>\<open>d.get(key, default)\<close> on a field that may be absent.\<close>

definition dict_get :: "'a option \<Rightarrow> 'a \<Rightarrow> 'a" where
  "dict_get field dflt = (case field of None \<Rightarrow> dflt | Some v \<Rightarrow> v)"

text \<open>
  White space as \<^verbatim>\<open>str.split()\<close> and \<^verbatim>\<open>str.strip()\<close> see it, for the code
  points a \<open>char\<close> can hold (0 to 255).
\<close>

definition py_isspace :: "char \<Rightarrow> bool" where
  "py_isspace c = (c \<in> set
     [CHR 0x20, CHR 0x09, CHR 0x0A, CHR 0x0B, CHR 0x0C, CHR 0x0D,
      CHR 0x1C, CHR 0x1D, CHR 0x1E, CHR 0x1F, CHR 0x85, CHR 0xA0])"

text \<open>\<^verbatim>\<open>s.split()\<close>: the maximal runs of characters that are not white space.\<close>

fun split_words :: "string \<Rightarrow> string \<Rightarrow> string list" where
  "split_words w [] = (if w = [] then [] else [w])"
| "split_words w (c # cs) =
     (if py_isspace c then (if w = [] then split_words [] cs else w # split_words [] cs)
      else split_words (w @ [c]) cs)"

definition py_split :: "string \<Rightarrow> string list" where
  "py_split s = split_words [] s"

definition py_strip :: "string \<Rightarrow> string" where
  "py_strip s = rev (dropWhile py_isspace (rev (dropWhile py_isspace s)))"

text \<open>\<^verbatim>\<open>s.replace('\n', ' ')\<close>\<close>

definition replace_newlines :: "string \<Rightarrow> string" where
  "replace_newlines s = map (\<lambda>c. if c = CHR 0x0A then CHR 0x20 else c) s"

definition startswith :: "string \<Rightarrow> string \<Rightarrow> bool" where
  "startswith s p = (take (length p) s = p)"

text \<open>
  The tags of a record:
  \<^verbatim>\<open>categories = paper.get('categories', ''); if isinstance(categories, str): categories = categories.split()\<close>
\<close>

definition category_tags :: "raw_paper \<Rightarrow> string list" where
  "category_tags paper =
     (case dict_get (raw_categories paper) (CatString []) of
        CatString s \<Rightarrow> py_split s
      | CatList tags \<Rightarrow> tags)"

definition is_cs :: "string \<Rightarrow> bool" where
  "is_cs cat = startswith cat ''cs.''"

text \<open>\<^verbatim>\<open>any(cat.startswith('cs.') for cat in categories)\<close>\<close>

definition has_cs_category :: "raw_paper \<Rightarrow> bool" where
  "has_cs_category paper = list_ex is_cs (category_tags paper)"

text \<open>The dictionary \<^verbatim>\<open>cs_paper\<close> built for a kept record.\<close>

definition extract_cs_paper :: "raw_paper \<Rightarrow> cs_paper" where
  "extract_cs_paper paper =
     \<lparr>paper_id = dict_get (raw_id paper) [],
      title = py_strip (replace_newlines (dict_get (raw_title paper) [])),
      abstract = py_strip (replace_newlines (dict_get (raw_abstract paper) [])),
      categories = filter is_cs (category_tags paper),
      authors = dict_get (raw_authors paper) [],
      update_date = dict_get (raw_update_date paper) []\<rparr>"

text \<open>
  \<^verbatim>\<open>if max_papers and len(cs_papers) >= max_papers\<close>: \<^verbatim>\<open>None\<close> and \<^verbatim>\<open>0\<close> are
  falsy, every other integer is truthy.
\<close>

definition reached_maximum :: "int option \<Rightarrow> nat \<Rightarrow> bool" where
  "reached_maximum max_papers n =
     (case max_papers of None \<Rightarrow> False | Some k \<Rightarrow> k \<noteq> 0 \<and> k \<le> int n)"

datatype log_event = ParseWarning

text \<open>
  The variables of \<^verbatim>\<open>filter_cs_papers\<close>: the two the source has, \<open>cs_papers\<close> and
  \<open>total_processed\<close>, the warnings logged for lines that do not parse (\<open>events\<close>),
  and \<open>lines_read\<close>, the number of lines the loop has taken from the file so far (what
  the source's iteration over \<^verbatim>\<open>f\<close> consumes).
\<close>

record filter_state =
  cs_papers :: "cs_paper list"
  total_processed :: nat
  lines_read :: nat
  events :: "log_event list"

fun filter_loop ::
  "('l \<Rightarrow> raw_paper option) \<Rightarrow> int option \<Rightarrow> 'l list \<Rightarrow> filter_state \<Rightarrow> filter_state" where
  "filter_loop json_loads max_papers [] st = st"
| "filter_loop json_loads max_papers (line # rest) st =
     (let st1 = st\<lparr>lines_read := lines_read st + 1\<rparr> in
      case json_loads line of
        None \<Rightarrow> filter_loop json_loads max_papers rest (st1\<lparr>events := events st1 @ [ParseWarning]\<rparr>)
      | Some paper \<Rightarrow>
          let st2 = st1\<lparr>total_processed := total_processed st1 + 1\<rparr> in
          if has_cs_category paper then
            let st3 = st2\<lparr>cs_papers := cs_papers st2 @ [extract_cs_paper paper]\<rparr> in
            if reached_maximum max_papers (length (cs_papers st3)) then st3
            else filter_loop json_loads max_papers rest st3
          else filter_loop json_loads max_papers rest st2)"

text \<open>
  \<^verbatim>\<open>filter_cs_papers(input_file, output_file, max_papers)\<close> over the lines of the
  input file. The final \<open>cs_papers\<close> is what is written to the output file, its length
  is the return value, and \<open>total_processed\<close> is the total of the summary log line.
\<close>

definition filter_cs_papers ::
  "('l \<Rightarrow> raw_paper option) \<Rightarrow> 'l list \<Rightarrow> int option \<Rightarrow> filter_state" where
  "filter_cs_papers json_loads lines max_papers =
     filter_loop json_loads max_papers lines
       \<lparr>cs_papers = [], total_processed = 0, lines_read = 0, events = []\<rparr>"

text \<open>
  The same function over what the input file gives. The file is opened as UTF-8 text,
  so each step of \<^verbatim>\<open>for line in tqdm(f)\<close> either yields a line or raises
  UnicodeDecodeError, outside the \<^verbatim>\<open>try\<close>; and \<^verbatim>\<open>json.loads\<close> raises
  JSONDecodeError (\<open>None\<close>), the only exception the loop handles, or returns a value
  that is a JSON object or something else (a list, a number, a string), on which
  \<^verbatim>\<open>paper.get\<close> raises AttributeError.
\<close>

datatype 'l file_item = Undecodable | Line 'l

datatype json_value = JsonObject raw_paper | JsonOther

fun filter_file_loop ::
  "('l \<Rightarrow> json_value option) \<Rightarrow> int option \<Rightarrow> 'l file_item list \<Rightarrow> filter_state
     \<Rightarrow> py_error + filter_state" where
  "filter_file_loop json_loads max_papers [] st = Inr st"
| "filter_file_loop json_loads max_papers (Undecodable # rest) st = Inl UnicodeDecodeError"
| "filter_file_loop json_loads max_papers (Line line # rest) st =
     (let st1 = st\<lparr>lines_read := lines_read st + 1\<rparr> in
      case json_loads line of
        None \<Rightarrow>
          filter_file_loop json_loads max_papers rest (st1\<lparr>events := events st1 @ [ParseWarning]\<rparr>)
      | Some JsonOther \<Rightarrow> Inl AttributeError
      | Some (JsonObject paper) \<Rightarrow>
          let st2 = st1\<lparr>total_processed := total_processed st1 + 1\<rparr> in
          if has_cs_category paper then
            let st3 = st2\<lparr>cs_papers := cs_papers st2 @ [extract_cs_paper paper]\<rparr> in
            if reached_maximum max_papers (length (cs_papers st3)) then Inr st3
            else filter_file_loop json_loads max_papers rest st3
          else filter_file_loop json_loads max_papers rest st2)"

definition filter_cs_papers_file ::
  "('l \<Rightarrow> json_value option) \<Rightarrow> 'l file_item list \<Rightarrow> int option \<Rightarrow> py_error + filter_state" where
  "filter_cs_papers_file json_loads items max_papers =
     filter_file_loop json_loads max_papers items
       \<lparr>cs_papers = [], total_processed = 0, lines_read = 0, events = []\<rparr>"

section \<open>generate_embeddings.py: the embedding batcher\<close>

text \<open>
  A paper of the embedding and loading stages is the filter's dictionary with the key
  \<^verbatim>\<open>abstract_vector\<close>, absent (\<open>None\<close>) until the embedder sets it. A vector is a list
  of floats; the type of floats is a parameter \<open>'f\<close>.
\<close>

record 'f paper = cs_paper +
  abstract_vector :: "'f list option"

text \<open>
  The embedding service \<^verbatim>\<open>model.encode(batch)\<close> is a parameter: from its state and the
  batch of texts it returns the rows of the array it answers with, and its next state.
  Nothing is assumed about how many rows it returns.
\<close>

type_synonym ('s, 'f) encoder = "'s \<Rightarrow> string list \<Rightarrow> 'f list list \<times> 's"

text \<open>
  \<^verbatim>\<open>for i in range(...): batch = abstracts[i:i + batch_size];
  batch_embeddings = model.encode(batch); all_embeddings.extend(batch_embeddings)\<close>
\<close>

fun encode_batches ::
  "('s, 'f) encoder \<Rightarrow> string list list \<Rightarrow> 'f list list \<times> 's \<Rightarrow> 'f list list \<times> 's" where
  "encode_batches encode [] (all_embeddings, s) = (all_embeddings, s)"
| "encode_batches encode (batch # rest) (all_embeddings, s) =
     (case encode s batch of
        (batch_embeddings, s') \<Rightarrow>
          encode_batches encode rest (all_embeddings @ batch_embeddings, s'))"

text \<open>
  \<^verbatim>\<open>for paper, embedding in zip(papers, all_embeddings): paper['abstract_vector'] = embedding.tolist()\<close>.
  \<^verbatim>\<open>zip\<close> stops at the shorter of the two; the papers beyond it stay as they were.
\<close>

fun add_embeddings :: "'f paper list \<Rightarrow> 'f list list \<Rightarrow> 'f paper list" where
  "add_embeddings (paper # papers) (embedding # embeddings) =
     paper\<lparr>abstract_vector := Some embedding\<rparr> # add_embeddings papers embeddings"
| "add_embeddings papers [] = papers"
| "add_embeddings [] embeddings = []"

definition generate_embeddings ::
  "('s, 'f) encoder \<Rightarrow> 's \<Rightarrow> 'f paper list \<Rightarrow> int \<Rightarrow> py_error + ('f paper list \<times> 's)" where
  "generate_embeddings encode s papers batch_size =
     (let abstracts = map abstract papers in
      case py_batches abstracts batch_size of
        Inl e \<Rightarrow> Inl e
      | Inr bs \<Rightarrow>
          (case encode_batches encode bs ([], s) of
             (all_embeddings, s') \<Rightarrow> Inr (add_embeddings papers all_embeddings, s')))"

section \<open>ingest_data.py: the bulk loader\<close>

record 'f document =
  doc_paper_id :: string
  doc_title :: string
  doc_abstract :: string
  doc_categories :: "string list"
  doc_authors :: string
  doc_update_date :: string
  doc_abstract_vector :: "'f list"

record 'f action =
  action_index :: string
  action_id :: string
  action_source :: "'f document"

definition generate_actions :: "'f paper list \<Rightarrow> string \<Rightarrow> 'f action list" where
  "generate_actions papers index_name =
     map (\<lambda>paper.
       \<lparr>action_index = index_name,
        action_id = paper_id paper,
        action_source =
          \<lparr>doc_paper_id = paper_id paper,
           doc_title = title paper,
           doc_abstract = abstract paper,
           doc_categories = categories paper,
           doc_authors = authors paper,
           doc_update_date = update_date paper,
           doc_abstract_vector = dict_get (abstract_vector paper) []\<rparr>\<rparr>) papers"

text \<open>
  The call \<^verbatim>\<open>bulk(client, actions, raise_on_error=False, stats_only=True)\<close> of the
  Elasticsearch client library is a parameter: from the backend's state and the actions
  it returns the pair \<^verbatim>\<open>(success, failed)\<close> or raises, and the backend's next state.
  The exceptions are the classes the loop tells apart: \<^verbatim>\<open>BulkIndexError\<close>, and the
  other subclasses of \<^verbatim>\<open>Exception\<close>, of which the client's connection error (the
  backend is unreachable) is one.
\<close>

datatype exn = BulkIndexError | ConnectionError | OtherException

datatype bulk_outcome = Stats nat nat | Raises exn

type_synonym ('s, 'f) bulk_fn = "'s \<Rightarrow> 'f action list \<Rightarrow> bulk_outcome \<times> 's"

text \<open>
  The variables of the loop, \<open>total_indexed\<close> and \<open>total_errors\<close>, and the calls made
  to \<^verbatim>\<open>bulk\<close> so far, each with its outcome.
\<close>

record 'f load_state =
  total_indexed :: nat
  total_errors :: nat
  bulk_calls :: "('f action list \<times> bulk_outcome) list"

fun index_batches ::
  "('s, 'f) bulk_fn \<Rightarrow> string \<Rightarrow> 'f paper list list \<Rightarrow> 'f load_state \<times> 's \<Rightarrow> 'f load_state \<times> 's" where
  "index_batches bulk index_name [] (st, s) = (st, s)"
| "index_batches bulk index_name (batch # rest) (st, s) =
     (case bulk s (generate_actions batch index_name) of
        (outcome, s') \<Rightarrow>
          let st1 = st\<lparr>bulk_calls := bulk_calls st @ [(generate_actions batch index_name, outcome)]\<rparr> in
          (case outcome of
             Stats success failed \<Rightarrow>
               index_batches bulk index_name rest
                 (st1\<lparr>total_indexed := total_indexed st1 + success,
                      total_errors := total_errors st1 + failed\<rparr>, s')
           | Raises BulkIndexError \<Rightarrow>
               index_batches bulk index_name rest
                 (st1\<lparr>total_errors := total_errors st1 + length batch\<rparr>, s')
           | Raises _ \<Rightarrow>
               index_batches bulk index_name rest
                 (st1\<lparr>total_errors := total_errors st1 + length batch\<rparr>, s')))"

text \<open>
  \<^verbatim>\<open>bulk_index_papers(client, papers, index_name, batch_size)\<close>. The result holds the
  counts of the summary log line (\<open>total_indexed\<close> is also the return value) and the
  backend's state after \<^verbatim>\<open>client.indices.refresh\<close>, a parameter too.
\<close>

definition bulk_index_papers ::
  "('s, 'f) bulk_fn \<Rightarrow> ('s \<Rightarrow> string \<Rightarrow> 's) \<Rightarrow> 's \<Rightarrow> 'f paper list \<Rightarrow> string \<Rightarrow> int
     \<Rightarrow> py_error + ('f load_state \<times> 's)" where
  "bulk_index_papers bulk refresh s papers index_name batch_size =
     (case py_batches papers batch_size of
        Inl e \<Rightarrow> Inl e
      | Inr bs \<Rightarrow>
          (case index_batches bulk index_name bs
                  (\<lparr>total_indexed = 0, total_errors = 0, bulk_calls = []\<rparr>, s) of
             (st, s') \<Rightarrow> Inr (st, refresh s' index_name)))"

section \<open>The entry points and their required input files\<close>

text \<open>
  What a \<^verbatim>\<open>main()\<close> does to the world, as the list of its effects, and how it ends:
  it returns, or an exception leaves it. The script is run as
  \<^verbatim>\<open>if __name__ == '__main__': main()\<close>, so the process exits with status 0 when
  \<^verbatim>\<open>main\<close> returns and with status 1 on an uncaught exception.
\<close>

datatype effect = LogError string | LogInfo string | WriteFile string | BackendCall string

datatype ending = Returned | Uncaught

fun exit_status :: "ending \<Rightarrow> nat" where
  "exit_status Returned = 0"
| "exit_status Uncaught = 1"

text \<open>\<^verbatim>\<open>os.path.join(data_dir, name)\<close> for a relative \<open>name\<close>.\<close>

definition path_join :: "string \<Rightarrow> string \<Rightarrow> string" where
  "path_join dir name =
     (if dir = [] \<or> last dir = CHR ''/'' then dir @ name else dir @ ''/'' @ name)"

text \<open>
  \<^verbatim>\<open>main()\<close> of generate_embeddings.py and of ingest_data.py, up to the check of the
  input file. \<open>getenv\<close> is the environment, \<open>path_exists\<close> is \<^verbatim>\<open>os.path.exists\<close>,
  \<open>py_int\<close> is the conversion \<^verbatim>\<open>int(...)\<close> of a string (\<open>None\<close>: it raises
  ValueError), and \<open>rest\<close> is the remainder of \<^verbatim>\<open>main\<close> (loading, embedding or
  indexing, saving), which runs only when the input file exists. Both functions convert
  \<^verbatim>\<open>BATCH_SIZE\<close> before they look for the input file; the ValueError of that
  conversion is not caught, so it leaves \<^verbatim>\<open>main\<close> before anything is logged.
\<close>

definition generate_embeddings_main ::
  "(string \<Rightarrow> string option) \<Rightarrow> (string \<Rightarrow> bool) \<Rightarrow> (string \<Rightarrow> int option)
     \<Rightarrow> (string \<Rightarrow> int \<Rightarrow> effect list \<times> ending) \<Rightarrow> effect list \<times> ending" where
  "generate_embeddings_main getenv path_exists py_int rest =
     (let data_dir = dict_get (getenv ''DATA_DIR'') ''./data'' in
      case py_int (dict_get (getenv ''BATCH_SIZE'') ''32'') of
        None \<Rightarrow> ([], Uncaught)
      | Some batch_size \<Rightarrow>
          let input_file = path_join data_dir ''cs_papers.json''
          in if \<not> path_exists input_file
             then ([LogError (''Input file not found: '' @ input_file),
                    LogInfo ''Please run download_dataset.py first''], Returned)
             else rest input_file batch_size)"

definition ingest_data_main ::
  "(string \<Rightarrow> string option) \<Rightarrow> (string \<Rightarrow> bool) \<Rightarrow> (string \<Rightarrow> int option)
     \<Rightarrow> (string \<Rightarrow> int \<Rightarrow> effect list \<times> ending) \<Rightarrow> effect list \<times> ending" where
  "ingest_data_main getenv path_exists py_int rest =
     (let data_dir = dict_get (getenv ''DATA_DIR'') ''./data'' in
      case py_int (dict_get (getenv ''BATCH_SIZE'') ''500'') of
        None \<Rightarrow> ([], Uncaught)
      | Some batch_size \<Rightarrow>
          let input_file = path_join data_dir ''cs_papers_with_embeddings.json''
          in if \<not> path_exists input_file
             then ([LogError (''Input file not found: '' @ input_file),
                    LogInfo ''Please run generate_embeddings.py first''], Returned)
             else rest input_file batch_size)"

section \<open>setup_snapshots.py: restoring a snapshot\<close>

text \<open>Python's truth value of an optional argument: \<^verbatim>\<open>None\<close> and the empty value are falsy.\<close>

definition truthy :: "'a list option \<Rightarrow> bool" where
  "truthy x = (case x of None \<Rightarrow> False | Some v \<Rightarrow> v \<noteq> [])"

text \<open>\<^verbatim>\<open>",".join(indices)\<close>\<close>

fun join_comma :: "string list \<Rightarrow> string" where
  "join_comma [] = []"
| "join_comma [x] = x"
| "join_comma (x # y # ys) = x @ '','' @ join_comma (y # ys)"

text \<open>
  The request \<^verbatim>\<open>client.snapshot.restore(repository=..., snapshot=..., body=...,
  wait_for_completion=...)\<close> that \<^verbatim>\<open>restore_snapshot\<close> sends; \<open>body\<close> is the dictionary.
\<close>

record restore_request =
  repository :: string
  snapshot :: string
  body :: "string \<rightharpoonup> string"
  wait_for_completion :: bool

definition restore_snapshot ::
  "string \<Rightarrow> string \<Rightarrow> string list option \<Rightarrow> string option \<Rightarrow> string option \<Rightarrow> bool
     \<Rightarrow> restore_request" where
  "restore_snapshot repo_name snapshot_name indices rename_pattern rename_replacement wait =
     (let body0 = Map.empty;
          body1 = (if truthy indices
                   then body0(''indices'' \<mapsto> join_comma (dict_get indices []))
                   else body0);
          body2 = (if truthy rename_pattern \<and> truthy rename_replacement
                   then body1(''rename_pattern'' \<mapsto> dict_get rename_pattern [],
                              ''rename_replacement'' \<mapsto> dict_get rename_replacement [])
                   else body1)
      in \<lparr>repository = repo_name, snapshot = snapshot_name, body = body2,
          wait_for_completion = wait\<rparr>)"

section \<open>Notions the properties are stated with\<close>

text \<open>A line matches when it parses and one of its tags starts with \<^verbatim>\<open>cs.\<close>.\<close>

definition line_matches :: "('l \<Rightarrow> raw_paper option) \<Rightarrow> 'l \<Rightarrow> bool" where
  "line_matches json_loads line =
     (case json_loads line of None \<Rightarrow> False | Some paper \<Rightarrow> has_cs_category paper)"

text \<open>
  The number of lines the loop of \<open>filter_loop\<close> takes from the input when it starts
  with \<open>kept\<close> papers already kept; the proofs relate \<open>lines_read\<close> to it.
\<close>

fun lines_consumed :: "('l \<Rightarrow> raw_paper option) \<Rightarrow> int option \<Rightarrow> nat \<Rightarrow> 'l list \<Rightarrow> nat" where
  "lines_consumed json_loads max_papers kept [] = 0"
| "lines_consumed json_loads max_papers kept (line # rest) =
     Suc (if line_matches json_loads line then
            (if reached_maximum max_papers (Suc kept) then 0
             else lines_consumed json_loads max_papers (Suc kept) rest)
          else lines_consumed json_loads max_papers kept rest)"

text \<open>
  What one call of \<^verbatim>\<open>bulk\<close> contributes to the tallies: the counts it reported, or the
  size of the whole batch as errors when it raised.
\<close>

fun indexed_of_call :: "'f action list \<times> bulk_outcome \<Rightarrow> nat" where
  "indexed_of_call (actions, Stats success failed) = success"
| "indexed_of_call (actions, Raises e) = 0"

fun errors_of_call :: "'f action list \<times> bulk_outcome \<Rightarrow> nat" where
  "errors_of_call (actions, Stats success failed) = failed"
| "errors_of_call (actions, Raises e) = length actions"

text \<open>
  The calls the loop of \<open>index_batches\<close> makes from the backend state \<open>s\<close>, with the
  outcome of each; the proofs relate \<open>bulk_calls\<close> to it.
\<close>

fun bulk_trace ::
  "('s, 'f) bulk_fn \<Rightarrow> string \<Rightarrow> 'f paper list list \<Rightarrow> 's \<Rightarrow> ('f action list \<times> bulk_outcome) list" where
  "bulk_trace bulk index_name [] s = []"
| "bulk_trace bulk index_name (batch # rest) s =
     (case bulk s (generate_actions batch index_name) of
        (outcome, s') \<Rightarrow>
          (generate_actions batch index_name, outcome) # bulk_trace bulk index_name rest s')"

text \<open>
  The backend's state after the bulk calls for the batches \<open>bs\<close>, made in order from
  the state \<open>s\<close>.
\<close>

fun backend_after :: "('s, 'f) bulk_fn \<Rightarrow> string \<Rightarrow> 'f paper list list \<Rightarrow> 's \<Rightarrow> 's" where
  "backend_after bulk index_name [] s = s"
| "backend_after bulk index_name (batch # rest) s =
     backend_after bulk index_name rest (snd (bulk s (generate_actions batch index_name)))"


text \<open>Sample inputs for the concrete instances.\<close>

definition sample_paper :: "string \<Rightarrow> 'f paper" where
  "sample_paper pid =
     \<lparr>paper_id = pid, title = ''T'', abstract = ''A'', categories = [''cs.AI''],
      authors = ''X'', update_date = ''2023-01-01'', abstract_vector = None\<rparr>"

definition sample_raw :: "string \<Rightarrow> string \<Rightarrow> raw_paper" where
  "sample_raw pid cats =
     \<lparr>raw_id = Some pid, raw_title = Some ''T'', raw_abstract = Some ''A'',
      raw_categories = Some (CatString cats), raw_authors = Some ''X'',
      raw_update_date = Some ''2023-01-01''\<rparr>"

section \<open>The batch partition\<close>

lemma range_from_unfold:
  "0 < step \<Longrightarrow> i < n \<Longrightarrow> range_from i n step = i # range_from (i + step) n step"
  by (subst range_from.simps) simp

lemma range_from_done: "n \<le> i \<Longrightarrow> range_from i n step = []"
  by (subst range_from.simps) simp

lemma range_from_zero_step: "range_from i n 0 = []"
  by (subst range_from.simps) simp

lemma div_add_step: "0 < b \<Longrightarrow> (a + b) div b = Suc (a div (b::nat))"
  by simp

lemma concat_batches_at:
  "0 < b \<Longrightarrow> concat (batches_at xs b (range_from i (length xs) b)) = drop i xs"
proof (induction i "length xs" b rule: range_from.induct)
  case (1 i step)
  show ?case
  proof (cases "i < length xs")
    case True
    have "take step (drop i xs) @ drop (i + step) xs = drop i xs"
      by (metis append_take_drop_id drop_drop add.commute)
    moreover have "concat (batches_at xs step (range_from (i + step) (length xs) step))
        = drop (i + step) xs"
      using True 1 by simp
    ultimately show ?thesis
      using True 1(2) by (simp add: range_from_unfold batches_at_def py_slice_def)
  next
    case False
    then show ?thesis
      by (simp add: range_from_done batches_at_def)
  qed
qed

lemma range_from_eq_map:
  "0 < b \<Longrightarrow> range_from i n b = map (\<lambda>k. i + k * b) [0..<(n - i + b - 1) div b]"
proof (induction i n b rule: range_from.induct)
  case (1 i n step)
  show ?case
  proof (cases "i < n")
    case False
    with 1(2) have "(n - i + step - 1) div step = 0"
      by simp
    with False show ?thesis
      by (simp add: range_from_done)
  next
    case True
    define m where "m = (n - (i + step) + step - 1) div step"
    have cnt: "(n - i + step - 1) div step = Suc m"
    proof (cases "i + step \<le> n")
      case True
      then have "n - i + step - 1 = (n - (i + step) + step - 1) + step"
        using 1(2) by simp
      then have "(n - i + step - 1) div step = ((n - (i + step) + step - 1) + step) div step"
        by (rule arg_cong)
      also have "\<dots> = Suc m"
        using 1(2) unfolding m_def by (rule div_add_step)
      finally show ?thesis .
    next
      case False
      with True 1(2) have eq: "n - i + step - 1 = (n - i - 1) + step" and lt: "n - i - 1 < step"
        by simp_all
      from False have "m = 0"
        using 1(2) by (simp add: m_def)
      moreover have "(n - i + step - 1) div step = ((n - i - 1) + step) div step"
        using eq by (rule arg_cong)
      moreover have "((n - i - 1) + step) div step = Suc ((n - i - 1) div step)"
        using 1(2) by (rule div_add_step)
      moreover have "(n - i - 1) div step = 0"
        using lt by simp
      ultimately show ?thesis
        by (simp only:)
    qed
    have "range_from i n step = i # range_from (i + step) n step"
      using True 1(2) by (rule_tac range_from_unfold)
    also have "range_from (i + step) n step = map (\<lambda>k. i + step + k * step) [0..<m]"
      using 1 True by (simp add: m_def)
    also have "i # map (\<lambda>k. i + step + k * step) [0..<m] = map (\<lambda>k. i + k * step) [0..<Suc m]"
      by (simp only: upt_conv_Cons [of 0 "Suc m"] map_Suc_upt [symmetric]) (simp add: add.assoc)
    finally show ?thesis
      by (simp only: cnt)
  qed
qed

lemma ceil_div_nat:
  assumes "0 < b"
  shows "nat \<lceil>real n / real b\<rceil> = (n + b - 1) div b"
proof -
  define m where "m = (n + b - 1) div b"
  have split: "m * b + (n + b - 1) mod b = n + b - 1"
    unfolding m_def by simp
  have r: "(n + b - 1) mod b < b"
    using assms by simp
  have up: "n \<le> m * b"
    using split r assms by linarith
  have lo: "m * b < n + b"
    using split assms by linarith
  have "real n \<le> real (m * b)" "real (m * b) < real (n + b)"
    using up lo by (simp_all only: of_nat_le_iff of_nat_less_iff)
  then have "real n / real b \<le> real m" "real m - 1 < real n / real b"
    using assms by (simp_all add: field_simps)
  then have "\<lceil>real n / real b\<rceil> = int m"
    by (intro ceiling_unique) simp_all
  then show ?thesis
    by (simp add: m_def)
qed

lemma length_batches: "0 < b \<Longrightarrow> length (batches xs b) = (length xs + b - 1) div b"
  by (simp add: batches_def batches_at_def range_from_eq_map)

lemma nth_batches:
  assumes "0 < b" "j < length (batches xs b)"
  shows "batches xs b ! j = take b (drop (j * b) xs)"
  using assms by (simp add: batches_def batches_at_def range_from_eq_map py_slice_def)

lemma length_nth_batches:
  assumes "0 < b" "j < length (batches xs b)"
  shows "length (batches xs b ! j) =
    (if Suc j < length (batches xs b) \<or> length xs mod b = 0 then b else length xs mod b)"
proof -
  define n where "n = length xs"
  define m where "m = (n + b - 1) div b"
  have len: "length (batches xs b) = m"
    using assms(1) by (simp add: length_batches m_def n_def)
  have split: "m * b + (n + b - 1) mod b = n + b - 1"
    unfolding m_def by simp
  have r: "(n + b - 1) mod b < b"
    using assms by simp
  have sz: "length (batches xs b ! j) = min b (n - j * b)"
    using assms by (simp add: nth_batches n_def min.commute)
  show ?thesis
  proof (cases "Suc j < m")
    case True
    then have "Suc (Suc j) \<le> m" by simp
    then have "Suc (Suc j) * b \<le> m * b" by (rule mult_le_mono1)
    with split r assms(1) have "j * b + b \<le> n" by simp
    with sz True len show ?thesis by simp
  next
    case False
    with assms(2) len have j: "m = Suc j" by simp
    define d where "d = n - j * b"
    have mb: "m * b = j * b + b"
      using j by simp
    have "n \<le> m * b" "m * b < n + b"
      using split r assms(1) by linarith+
    with mb have n: "n = j * b + d" and d: "0 < d" "d \<le> b"
      unfolding d_def by linarith+
    have "n mod b = d mod b"
      by (simp add: n)
    with d have "(if n mod b = 0 then b else n mod b) = d"
      by (cases "d = b") simp_all
    moreover have "length (batches xs b ! j) = d"
      using sz d by (simp add: d_def)
    ultimately show ?thesis
      using False len by (auto simp: n_def split: if_splits)
  qed
qed

section \<open>The filter loop\<close>

lemma filter_loop_eq:
  "filter_loop json_loads mp ls st =
     (let seen = take (lines_consumed json_loads mp (length (cs_papers st)) ls) ls in
      st\<lparr>cs_papers := cs_papers st @
             map extract_cs_paper (filter has_cs_category (List.map_filter json_loads seen)),
         total_processed := total_processed st + length (List.map_filter json_loads seen),
         lines_read := lines_read st + length seen,
         events := events st @
             replicate (length (filter (\<lambda>l. json_loads l = None) seen)) ParseWarning\<rparr>)"
proof (induction ls arbitrary: st)
  case Nil
  show ?case by (simp add: List.map_filter_simps)
next
  case (Cons line rest)
  show ?case
  proof (cases "json_loads line")
    case None
    then show ?thesis
      by (simp add: Cons.IH Let_def line_matches_def List.map_filter_simps replicate_append_same)
  next
    case (Some paper)
    then show ?thesis
      by (simp add: Cons.IH Let_def line_matches_def List.map_filter_simps)
  qed
qed



lemma lines_consumed_le: "lines_consumed json_loads mp c ls \<le> length ls"
  by (induction ls arbitrary: c) auto

lemma lines_consumed_uncapped:
  "mp = None \<or> mp = Some 0 \<Longrightarrow> lines_consumed json_loads mp c ls = length ls"
  by (induction ls arbitrary: c) (auto simp: reached_maximum_def)




lemma py_batches_pos: "0 < b \<Longrightarrow> py_batches xs (int b) = Inr (batches xs b)"
  by (simp add: py_batches_def py_range_def batches_def)

lemma concat_batches: "0 < b \<Longrightarrow> concat (batches xs b) = xs"
  using concat_batches_at [of b xs 0] by (simp add: batches_def)

text \<open>
  Claim C2. For a list of \<open>n\<close> records and a positive batch size \<open>b\<close>, the batching
  step of both loops yields \<open>ceil(n / b)\<close> batches; every batch but the last has size
  \<open>b\<close>, the last has size \<open>n mod b\<close> when that is not zero (and \<open>b\<close> otherwise); and
  the batches concatenated in order are the input.
\<close>

theorem batch_partition:
  assumes "0 < b"
  shows "py_batches xs (int b) = Inr (batches xs b)
    \<and> length (batches xs b) = nat \<lceil>real (length xs) / real b\<rceil>
    \<and> (\<forall>j < length (batches xs b).
          length (batches xs b ! j) =
            (if Suc j < length (batches xs b) \<or> length xs mod b = 0 then b else length xs mod b))
    \<and> concat (batches xs b) = xs"
proof -
  have "length (batches xs b) = nat \<lceil>real (length xs) / real b\<rceil>"
    using assms by (simp add: length_batches ceil_div_nat)
  moreover have "\<forall>j < length (batches xs b).
          length (batches xs b ! j) =
            (if Suc j < length (batches xs b) \<or> length xs mod b = 0 then b else length xs mod b)"
    using assms length_nth_batches by blast
  ultimately show ?thesis
    using assms by (simp only: py_batches_pos concat_batches simp_thms)
qed

lemma batches_example: "batches [1, 2, 3, 4, 5 :: nat] 2 = [[1, 2], [3, 4], [5]]"
  by (simp add: batches_def batches_at_def py_slice_def range_from.simps)

theorem batch_partition_witness:
  "(0::nat) < 2
   \<and> py_batches [1, 2, 3, 4, 5 :: nat] 2 = Inr [[1, 2], [3, 4], [5]]
   \<and> length (batches [1, 2, 3, 4, 5 :: nat] 2) = nat \<lceil>real 5 / real 2\<rceil>
   \<and> length (batches [1, 2, 3, 4, 5 :: nat] 2 ! 2) = 5 mod 2
   \<and> concat (batches [1, 2, 3, 4, 5 :: nat] 2) = [1, 2, 3, 4, 5]"
  using batch_partition [of 2 "[1, 2, 3, 4, 5 :: nat]"] batches_example by simp

section \<open>The bulk loader\<close>

lemma index_batches_eq:
  "fst (index_batches bulk index_name bs (st, s)) =
     st\<lparr>total_indexed := total_indexed st
              + sum_list (map indexed_of_call (bulk_trace bulk index_name bs s)),
         total_errors := total_errors st
              + sum_list (map errors_of_call (bulk_trace bulk index_name bs s)),
         bulk_calls := bulk_calls st @ bulk_trace bulk index_name bs s\<rparr>"
proof (induction bs arbitrary: st s)
  case Nil
  show ?case by simp
next
  case (Cons batch rest)
  obtain outcome s' where call: "bulk s (generate_actions batch index_name) = (outcome, s')"
    by (cases "bulk s (generate_actions batch index_name)")
  have len: "length (generate_actions batch index_name) = length batch"
    by (simp add: generate_actions_def)
  show ?case
  proof (cases outcome)
    case (Stats success failed)
    with call show ?thesis
      by (simp add: Cons.IH)
  next
    case (Raises e)
    with call len show ?thesis
      by (cases e) (simp_all add: Cons.IH)
  qed
qed

lemma bulk_trace_actions:
  "map fst (bulk_trace bulk index_name bs s) = map (\<lambda>batch. generate_actions batch index_name) bs"
  by (induction bs arbitrary: s) (auto split: prod.splits)


lemma bulk_index_papers_pos:
  "0 < b \<Longrightarrow>
   bulk_index_papers bulk refresh s papers index_name (int b) =
     Inr (fst (index_batches bulk index_name (batches papers b)
                (\<lparr>total_indexed = 0, total_errors = 0, bulk_calls = []\<rparr>, s)),
          refresh (snd (index_batches bulk index_name (batches papers b)
                (\<lparr>total_indexed = 0, total_errors = 0, bulk_calls = []\<rparr>, s))) index_name)"
  by (simp add: bulk_index_papers_def py_batches_pos split: prod.splits)



lemma connection_loss_example:
  "bulk_index_papers
     (\<lambda>s actions. (if s = (0::nat) then Raises ConnectionError else Stats (length actions) 0, Suc s))
     (\<lambda>s index_name. s) 0 [sample_paper ''1'', sample_paper ''2'' :: real paper] ''arxiv-papers'' 1
   = Inr (\<lparr>total_indexed = 1, total_errors = 1,
           bulk_calls = [(generate_actions [sample_paper ''1''] ''arxiv-papers'', Raises ConnectionError),
                         (generate_actions [sample_paper ''2''] ''arxiv-papers'', Stats 1 0)]\<rparr>, 2)"
  by (simp add: bulk_index_papers_def py_batches_def py_range_def batches_at_def py_slice_def
      range_from.simps generate_actions_def)

lemma snd_index_batches:
  "snd (index_batches bulk index_name bs (st, s)) = backend_after bulk index_name bs s"
proof (induction bs arbitrary: st s)
  case Nil
  show ?case by simp
next
  case (Cons batch rest)
  obtain outcome s' where call: "bulk s (generate_actions batch index_name) = (outcome, s')"
    by (cases "bulk s (generate_actions batch index_name)")
  show ?case
  proof (cases outcome)
    case (Stats success failed)
    with call show ?thesis by (simp add: Cons.IH)
  next
    case (Raises e)
    with call show ?thesis by (cases e) (simp_all add: Cons.IH)
  qed
qed

lemma length_bulk_trace: "length (bulk_trace bulk index_name bs s) = length bs"
  by (induction bs arbitrary: s) (auto split: prod.splits)

lemma nth_bulk_trace:
  "j < length bs \<Longrightarrow>
   bulk_trace bulk index_name bs s ! j =
     (generate_actions (bs ! j) index_name,
      fst (bulk (backend_after bulk index_name (take j bs) s)
             (generate_actions (bs ! j) index_name)))"
proof (induction bs arbitrary: s j)
  case Nil
  then show ?case by simp
next
  case (Cons batch rest)
  show ?case
  proof (cases j)
    case 0
    then show ?thesis by (simp split: prod.splits)
  next
    case (Suc i)
    with Cons.prems have "i < length rest" by simp
    from Cons.IH [OF this] Suc show ?thesis
      by (simp split: prod.splits)
  qed
qed

lemma loader_result:
  "0 < b \<Longrightarrow>
   bulk_index_papers bulk refresh s papers index_name (int b) =
     Inr (\<lparr>total_indexed =
              sum_list (map indexed_of_call (bulk_trace bulk index_name (batches papers b) s)),
            total_errors =
              sum_list (map errors_of_call (bulk_trace bulk index_name (batches papers b) s)),
            bulk_calls = bulk_trace bulk index_name (batches papers b) s\<rparr>,
          refresh (backend_after bulk index_name (batches papers b) s) index_name)"
  by (simp add: bulk_index_papers_pos index_batches_eq snd_index_batches)

text \<open>
  Claim C7. For a positive batch size and whatever the bulk calls answer (failures
  reported for some or all documents of a batch, or an exception raised), the run is not
  aborted. The loader returns; it has called \<^verbatim>\<open>bulk\<close> once for every batch, in order,
  each call on the backend state the calls before it left; \<open>bulk_calls\<close> holds, for
  each batch, its actions and the answer \<^verbatim>\<open>bulk\<close> gave; and the tallies are the sums
  over these calls of the counts reported or, where the call raised, of the batch's size
  as errors. The backend is left in the state after the last call, refreshed.
\<close>

theorem partial_failure_continues:
  assumes "0 < b"
  shows "bulk_index_papers bulk refresh s papers index_name (int b) =
     Inr (\<lparr>total_indexed =
              sum_list (map indexed_of_call (bulk_trace bulk index_name (batches papers b) s)),
            total_errors =
              sum_list (map errors_of_call (bulk_trace bulk index_name (batches papers b) s)),
            bulk_calls = bulk_trace bulk index_name (batches papers b) s\<rparr>,
          refresh (backend_after bulk index_name (batches papers b) s) index_name)
   \<and> length (bulk_trace bulk index_name (batches papers b) s) = length (batches papers b)
   \<and> (\<forall>j < length (batches papers b).
        bulk_trace bulk index_name (batches papers b) s ! j =
          (generate_actions (batches papers b ! j) index_name,
           fst (bulk (backend_after bulk index_name (take j (batches papers b)) s)
                  (generate_actions (batches papers b ! j) index_name))))"
  using assms by (simp add: loader_result length_bulk_trace nth_bulk_trace)

lemma batches_five:
  "batches (map sample_paper [''1'', ''2'', ''3'', ''4'', ''5'']) (Suc (Suc 0)) =
     [[sample_paper ''1'', sample_paper ''2''], [sample_paper ''3'', sample_paper ''4''],
      [sample_paper ''5'']]"
  by (simp add: batches_def batches_at_def py_slice_def range_from.simps)

lemma partial_failure_example:
  "bulk_index_papers
       (\<lambda>s actions. (if s = (0::nat) then Stats 1 1 else if s = 1 then Raises BulkIndexError
                       else Stats (length actions) 0, Suc s))
       (\<lambda>s index_name. s) 0
       (map sample_paper [''1'', ''2'', ''3'', ''4'', ''5''] :: real paper list)
       ''arxiv-papers'' 2
   = Inr (\<lparr>total_indexed = 2, total_errors = 3,
           bulk_calls =
             [(generate_actions [sample_paper ''1'', sample_paper ''2''] ''arxiv-papers'', Stats 1 1),
              (generate_actions [sample_paper ''3'', sample_paper ''4''] ''arxiv-papers'',
               Raises BulkIndexError),
              (generate_actions [sample_paper ''5''] ''arxiv-papers'', Stats 1 0)]\<rparr>, 3)"
  by (simp add: bulk_index_papers_def py_batches_def py_range_def batches_at_def py_slice_def
      range_from.simps generate_actions_def)

theorem partial_failure_continues_witness:
  "(0::nat) < 2 \<and>
   bulk_index_papers
       (\<lambda>s actions. (if s = (0::nat) then Stats 1 1 else if s = 1 then Raises BulkIndexError
                       else Stats (length actions) 0, Suc s))
       (\<lambda>s index_name. s) 0
       (map sample_paper [''1'', ''2'', ''3'', ''4'', ''5''] :: real paper list)
       ''arxiv-papers'' (int 2)
   = Inr (\<lparr>total_indexed = 2, total_errors = 3,
           bulk_calls =
             [(generate_actions [sample_paper ''1'', sample_paper ''2''] ''arxiv-papers'', Stats 1 1),
              (generate_actions [sample_paper ''3'', sample_paper ''4''] ''arxiv-papers'',
               Raises BulkIndexError),
              (generate_actions [sample_paper ''5''] ''arxiv-papers'', Stats 1 0)]\<rparr>, 3)
   \<and> bulk_trace
       (\<lambda>s actions. (if s = (0::nat) then Stats 1 1 else if s = 1 then Raises BulkIndexError
                       else Stats (length actions) 0, Suc s))
       ''arxiv-papers''
       (batches (map sample_paper [''1'', ''2'', ''3'', ''4'', ''5''] :: real paper list) 2) 0
     = [(generate_actions [sample_paper ''1'', sample_paper ''2''] ''arxiv-papers'', Stats 1 1),
        (generate_actions [sample_paper ''3'', sample_paper ''4''] ''arxiv-papers'',
         Raises BulkIndexError),
        (generate_actions [sample_paper ''5''] ''arxiv-papers'', Stats 1 0)]"
proof -
  let ?bulk = "\<lambda>(s::nat) (actions :: real action list).
      (if s = 0 then Stats 1 1 else if s = 1 then Raises BulkIndexError
       else Stats (length actions) 0, Suc s)"
  let ?ps = "map sample_paper [''1'', ''2'', ''3'', ''4'', ''5''] :: real paper list"
  have pos: "(0::nat) < 2" by simp
  have run: "bulk_index_papers ?bulk (\<lambda>s index_name. s) 0 ?ps ''arxiv-papers'' (int 2)
     = Inr (\<lparr>total_indexed = 2, total_errors = 3,
           bulk_calls =
             [(generate_actions [sample_paper ''1'', sample_paper ''2''] ''arxiv-papers'', Stats 1 1),
              (generate_actions [sample_paper ''3'', sample_paper ''4''] ''arxiv-papers'',
               Raises BulkIndexError),
              (generate_actions [sample_paper ''5''] ''arxiv-papers'', Stats 1 0)]\<rparr>, 3)"
    using partial_failure_example by simp
  note inst = partial_failure_continues [OF pos, of ?bulk "\<lambda>s index_name. s" 0 ?ps "''arxiv-papers''"]
  let ?c = "\<lparr>total_indexed = 2, total_errors = 3,
           bulk_calls =
             [(generate_actions [sample_paper ''1'', sample_paper ''2'' :: real paper] ''arxiv-papers'', Stats 1 1),
              (generate_actions [sample_paper ''3'', sample_paper ''4''] ''arxiv-papers'',
               Raises BulkIndexError),
              (generate_actions [sample_paper ''5''] ''arxiv-papers'', Stats 1 0)]\<rparr>"
  have "Inr (?c, 3::nat) =
      (Inr (\<lparr>total_indexed =
              sum_list (map indexed_of_call (bulk_trace ?bulk ''arxiv-papers'' (batches ?ps 2) 0)),
            total_errors =
              sum_list (map errors_of_call (bulk_trace ?bulk ''arxiv-papers'' (batches ?ps 2) 0)),
            bulk_calls = bulk_trace ?bulk ''arxiv-papers'' (batches ?ps 2) 0\<rparr>,
          backend_after ?bulk ''arxiv-papers'' (batches ?ps 2) 0) :: py_error + _)"
    by (rule trans [OF sym [OF run] inst [THEN conjunct1]])
  then have "bulk_calls ?c = bulk_trace ?bulk ''arxiv-papers'' (batches ?ps 2) 0"
    by simp
  then have trace: "bulk_trace ?bulk ''arxiv-papers'' (batches ?ps 2) 0
     = [(generate_actions [sample_paper ''1'', sample_paper ''2''] ''arxiv-papers'', Stats 1 1),
        (generate_actions [sample_paper ''3'', sample_paper ''4''] ''arxiv-papers'',
         Raises BulkIndexError),
        (generate_actions [sample_paper ''5''] ''arxiv-papers'', Stats 1 0)]"
    by simp
  show ?thesis
    by (intro conjI) (rule pos run trace)+
qed

lemma sum_list_split_nth:
  "j < length xs \<Longrightarrow>
   sum_list (map f xs) = sum_list (map f (take j xs)) + f (xs ! j) + sum_list (map f (drop (Suc j) xs))"
proof -
  assume "j < length xs"
  then have "xs = take j xs @ xs ! j # drop (Suc j) xs"
    by (rule id_take_nth_drop)
  then have "sum_list (map f xs) = sum_list (map f (take j xs @ xs ! j # drop (Suc j) xs))"
    by (rule arg_cong)
  then show ?thesis
    by (simp add: add.assoc)
qed

text \<open>
  Claim C6, as amended. When the bulk call for a batch raises the connection error, the
  loop does not end: that call adds exactly the size of its batch to the error tally and
  nothing to the indexed tally, and every later batch is still submitted to
  \<^verbatim>\<open>bulk\<close>, on the backend state the calls before it left, and its answer booked.
\<close>

theorem connection_loss_continues:
  assumes "0 < b"
    and "j < length (batches papers b)"
    and "fst (bulk (backend_after bulk index_name (take j (batches papers b)) s)
               (generate_actions (batches papers b ! j) index_name)) = Raises ConnectionError"
  shows "\<exists>st s'. bulk_index_papers bulk refresh s papers index_name (int b) = Inr (st, s')
     \<and> bulk_calls st = bulk_trace bulk index_name (batches papers b) s
     \<and> length (bulk_calls st) = length (batches papers b)
     \<and> bulk_calls st ! j = (generate_actions (batches papers b ! j) index_name, Raises ConnectionError)
     \<and> (\<forall>k. j < k \<and> k < length (batches papers b) \<longrightarrow>
          bulk_calls st ! k =
            (generate_actions (batches papers b ! k) index_name,
             fst (bulk (backend_after bulk index_name (take k (batches papers b)) s)
                    (generate_actions (batches papers b ! k) index_name))))
     \<and> total_errors st =
          sum_list (map errors_of_call (take j (bulk_calls st)))
          + length (batches papers b ! j)
          + sum_list (map errors_of_call (drop (Suc j) (bulk_calls st)))
     \<and> total_indexed st =
          sum_list (map indexed_of_call (take j (bulk_calls st)))
          + sum_list (map indexed_of_call (drop (Suc j) (bulk_calls st)))
     \<and> s' = refresh (backend_after bulk index_name (batches papers b) s) index_name"
proof -
  let ?T = "bulk_trace bulk index_name (batches papers b) s"
  have len: "length ?T = length (batches papers b)"
    by (rule length_bulk_trace)
  have at_j: "?T ! j = (generate_actions (batches papers b ! j) index_name, Raises ConnectionError)"
    using nth_bulk_trace [OF assms(2), of bulk index_name s] assms(3) by simp
  have later: "\<forall>k. j < k \<and> k < length (batches papers b) \<longrightarrow>
      ?T ! k = (generate_actions (batches papers b ! k) index_name,
             fst (bulk (backend_after bulk index_name (take k (batches papers b)) s)
                    (generate_actions (batches papers b ! k) index_name)))"
    by (simp add: nth_bulk_trace)
  have j: "j < length ?T"
    using assms(2) len by simp
  have "errors_of_call (?T ! j) = length (batches papers b ! j)"
    by (simp add: at_j generate_actions_def)
  with sum_list_split_nth [OF j, of errors_of_call]
  have errs: "sum_list (map errors_of_call ?T) =
      sum_list (map errors_of_call (take j ?T)) + length (batches papers b ! j)
      + sum_list (map errors_of_call (drop (Suc j) ?T))"
    by simp
  have "indexed_of_call (?T ! j) = 0"
    by (simp add: at_j)
  with sum_list_split_nth [OF j, of indexed_of_call]
  have idx: "sum_list (map indexed_of_call ?T) =
      sum_list (map indexed_of_call (take j ?T)) + sum_list (map indexed_of_call (drop (Suc j) ?T))"
    by simp
  show ?thesis
    using len at_j later errs idx by (simp add: loader_result [OF assms(1)])
qed

theorem connection_loss_continues_witness:
  "\<exists>st s'. bulk_index_papers
       (\<lambda>s actions. (if s = (0::nat) then Raises ConnectionError else Stats (length actions) 0, Suc s))
       (\<lambda>s index_name. s) 0 [sample_paper ''1'', sample_paper ''2'' :: real paper]
       ''arxiv-papers'' (int 1) = Inr (st, s')
     \<and> bulk_calls st ! 0 = (generate_actions [sample_paper ''1''] ''arxiv-papers'', Raises ConnectionError)
     \<and> bulk_calls st ! 1 = (generate_actions [sample_paper ''2''] ''arxiv-papers'', Stats 1 0)
     \<and> length (bulk_calls st) = 2
     \<and> total_errors st = 1
     \<and> total_indexed st = 1
     \<and> s' = 2"
proof -
  let ?bulk = "\<lambda>(s::nat) (actions :: real action list).
      (if s = 0 then Raises ConnectionError else Stats (length actions) 0, Suc s)"
  let ?ps = "[sample_paper ''1'', sample_paper ''2'' :: real paper]"
  let ?st = "\<lparr>total_indexed = 1, total_errors = 1,
           bulk_calls = [(generate_actions [sample_paper ''1'' :: real paper] ''arxiv-papers'', Raises ConnectionError),
                         (generate_actions [sample_paper ''2''] ''arxiv-papers'', Stats 1 0)]\<rparr>"
  have bs: "batches ?ps 1 = [[sample_paper ''1''], [sample_paper ''2'']]"
    by (simp add: batches_def batches_at_def py_slice_def range_from.simps)
  have pos: "(0::nat) < 1" by simp
  have j: "0 < length (batches ?ps 1)"
    by (simp only: bs) simp
  have raised: "fst (?bulk (backend_after ?bulk ''arxiv-papers'' (take 0 (batches ?ps 1)) 0)
               (generate_actions (batches ?ps 1 ! 0) ''arxiv-papers'')) = Raises ConnectionError"
    by simp
  from connection_loss_continues [where bulk = ?bulk and b = 1 and j = 0 and papers = ?ps
      and index_name = "''arxiv-papers''" and s = 0 and refresh = "\<lambda>s index_name. s",
      OF pos j raised]
  obtain st s' where run: "bulk_index_papers ?bulk (\<lambda>s index_name. s) 0 ?ps ''arxiv-papers'' (int 1)
      = Inr (st, s')"
    by blast
  have "bulk_index_papers ?bulk (\<lambda>s index_name. s) 0 ?ps ''arxiv-papers'' (int 1) = Inr (?st, 2)"
    using connection_loss_example by simp
  with run have "st = ?st" "s' = 2"
    by simp_all
  with run show ?thesis
    by (intro exI [of _ st] exI [of _ s']) simp
qed

text \<open>
  Claim C6 as stated fails: here the first bulk call raises the connection error, and
  the second batch is submitted all the same (and indexed).
\<close>

theorem connection_loss_counterexample:
  "bulk_index_papers
     (\<lambda>s actions. (if s = (0::nat) then Raises ConnectionError else Stats (length actions) 0, Suc s))
     (\<lambda>s index_name. s) 0 [sample_paper ''1'', sample_paper ''2'' :: real paper] ''arxiv-papers'' 1
   = Inr (\<lparr>total_indexed = 1, total_errors = 1,
           bulk_calls = [(generate_actions [sample_paper ''1''] ''arxiv-papers'', Raises ConnectionError),
                         (generate_actions [sample_paper ''2''] ''arxiv-papers'', Stats 1 0)]\<rparr>, 2)"
  by (rule connection_loss_example)

section \<open>The corpus filter\<close>

lemma category_tags_sample [simp]:
  "category_tags (sample_raw pid cats) = py_split cats"
  by (simp add: category_tags_def sample_raw_def dict_get_def)

lemma split_example1: "py_split ''cs.AI math.CO'' = [''cs.AI'', ''math.CO'']"
  by (simp add: py_split_def py_isspace_def)

lemma split_example2: "py_split ''math.CO'' = [''math.CO'']"
  by (simp add: py_split_def py_isspace_def)

lemma split_example3: "py_split ''cs.LG'' = [''cs.LG'']"
  by (simp add: py_split_def py_isspace_def)

lemma has_cs_examples:
  "has_cs_category (sample_raw pid ''cs.AI math.CO'')"
  "\<not> has_cs_category (sample_raw pid ''math.CO'')"
  "has_cs_category (sample_raw pid ''cs.LG'')"
  by (simp_all add: has_cs_category_def split_example1 split_example2 split_example3
      is_cs_def startswith_def)

lemma filter_run_example:
  "filter_cs_papers id
     [Some (sample_raw ''1'' ''cs.AI math.CO''), None, Some (sample_raw ''2'' ''math.CO''),
      Some (sample_raw ''3'' ''cs.LG'')] max_papers
   = (if reached_maximum max_papers 1
      then \<lparr>cs_papers = [extract_cs_paper (sample_raw ''1'' ''cs.AI math.CO'')],
            total_processed = 1, lines_read = 1, events = []\<rparr>
      else if reached_maximum max_papers 2
      then \<lparr>cs_papers = [extract_cs_paper (sample_raw ''1'' ''cs.AI math.CO''),
                         extract_cs_paper (sample_raw ''3'' ''cs.LG'')],
            total_processed = 3, lines_read = 4, events = [ParseWarning]\<rparr>
      else \<lparr>cs_papers = [extract_cs_paper (sample_raw ''1'' ''cs.AI math.CO''),
                         extract_cs_paper (sample_raw ''3'' ''cs.LG'')],
            total_processed = 3, lines_read = 4, events = [ParseWarning]\<rparr>)"
  by (simp add: filter_cs_papers_def has_cs_examples Let_def)





lemma categories_example:
  "categories (extract_cs_paper (sample_raw ''1'' ''cs.AI math.CO'')) = [''cs.AI'']"
  by (simp add: extract_cs_paper_def split_example1 is_cs_def startswith_def)


text \<open>
  Claim C3. Of the records the filter reads, exactly those with a tag starting with
  \<^verbatim>\<open>cs.\<close> are in the output, in input order (with no \<^verbatim>\<open>max_papers\<close> every line is
  read); the categories of a kept record are exactly its tags that start with
  \<^verbatim>\<open>cs.\<close>, so they are not empty and are among its tags.
\<close>

theorem filter_completeness:
  "cs_papers (filter_cs_papers json_loads lines max_papers) =
     map extract_cs_paper
       (filter (\<lambda>paper. \<exists>tag \<in> set (category_tags paper). startswith tag ''cs.'')
          (List.map_filter json_loads
             (take (lines_read (filter_cs_papers json_loads lines max_papers)) lines)))
   \<and> (max_papers = None \<longrightarrow>
        lines_read (filter_cs_papers json_loads lines max_papers) = length lines)
   \<and> (\<forall>paper. categories (extract_cs_paper paper)
          = filter (\<lambda>tag. startswith tag ''cs.'') (category_tags paper))
   \<and> (\<forall>kept \<in> set (cs_papers (filter_cs_papers json_loads lines max_papers)).
          categories kept \<noteq> [] \<and> (\<forall>tag \<in> set (categories kept). startswith tag ''cs.''))"
proof -
  let ?r = "filter_cs_papers json_loads lines max_papers"
  have has: "has_cs_category = (\<lambda>paper. \<exists>tag \<in> set (category_tags paper). startswith tag ''cs.'')"
    by (auto simp: has_cs_category_def is_cs_def list_ex_iff fun_eq_iff)
  have is_cs: "is_cs = (\<lambda>tag. startswith tag ''cs.'')"
    by (simp add: is_cs_def fun_eq_iff)
  have n: "lines_read ?r = lines_consumed json_loads max_papers 0 lines"
    by (simp add: filter_cs_papers_def filter_loop_eq Let_def lines_consumed_le)
  have out: "cs_papers ?r = map extract_cs_paper
       (filter has_cs_category (List.map_filter json_loads (take (lines_read ?r) lines)))"
    unfolding n by (simp add: filter_cs_papers_def filter_loop_eq Let_def)
  have cats: "categories (extract_cs_paper paper) = filter is_cs (category_tags paper)" for paper
    by (simp add: extract_cs_paper_def)
  have kept: "categories kept \<noteq> [] \<and> (\<forall>tag \<in> set (categories kept). is_cs tag)"
    if "kept \<in> set (cs_papers ?r)" for kept
  proof -
    from that out obtain paper where "has_cs_category paper" "kept = extract_cs_paper paper"
      by auto
    then show ?thesis
      by (auto simp: cats has_cs_category_def list_ex_iff filter_empty_conv)
  qed
  have "max_papers = None \<longrightarrow> lines_read ?r = length lines"
    using n lines_consumed_uncapped [of max_papers json_loads 0 lines] by auto
  with out cats kept show ?thesis
    unfolding has is_cs by blast
qed

theorem filter_completeness_witness:
  "cs_papers (filter_cs_papers id
     [Some (sample_raw ''1'' ''cs.AI math.CO''), None, Some (sample_raw ''2'' ''math.CO''),
      Some (sample_raw ''3'' ''cs.LG'')] None)
   = map extract_cs_paper
       (filter (\<lambda>paper. \<exists>tag \<in> set (category_tags paper). startswith tag ''cs.'')
          (List.map_filter id
             [Some (sample_raw ''1'' ''cs.AI math.CO''), None, Some (sample_raw ''2'' ''math.CO''),
              Some (sample_raw ''3'' ''cs.LG'')]))
   \<and> cs_papers (filter_cs_papers id
     [Some (sample_raw ''1'' ''cs.AI math.CO''), None, Some (sample_raw ''2'' ''math.CO''),
      Some (sample_raw ''3'' ''cs.LG'')] None)
   = [extract_cs_paper (sample_raw ''1'' ''cs.AI math.CO''),
      extract_cs_paper (sample_raw ''3'' ''cs.LG'')]
   \<and> categories (extract_cs_paper (sample_raw ''1'' ''cs.AI math.CO'')) = [''cs.AI'']"
proof -
  let ?L = "[Some (sample_raw ''1'' ''cs.AI math.CO''), None, Some (sample_raw ''2'' ''math.CO''),
      Some (sample_raw ''3'' ''cs.LG'')]"
  note inst = filter_completeness [of id ?L None]
  have n: "lines_read (filter_cs_papers id ?L None) = length ?L"
    using inst [THEN conjunct2, THEN conjunct1] by (rule mp) (rule refl)
  have a: "cs_papers (filter_cs_papers id ?L None)
     = map extract_cs_paper
       (filter (\<lambda>paper. \<exists>tag \<in> set (category_tags paper). startswith tag ''cs.'')
          (List.map_filter id ?L))"
    using inst [THEN conjunct1] unfolding n by (simp only: take_all order_refl)
  have b: "cs_papers (filter_cs_papers id ?L None)
     = [extract_cs_paper (sample_raw ''1'' ''cs.AI math.CO''),
        extract_cs_paper (sample_raw ''3'' ''cs.LG'')]"
    by (simp add: filter_run_example reached_maximum_def)
  show ?thesis
    by (intro conjI) (rule a b categories_example)+
qed





text \<open>
  The two other failures end the run with an exception that nothing handles: a line that
  does not decode, and a line that parses to something other than a JSON object.
\<close>

lemma filter_file_aborts:
  "filter_cs_papers_file json_loads (Undecodable # rest) mp = Inl UnicodeDecodeError"
  "json_loads line = Some JsonOther \<Longrightarrow>
     filter_cs_papers_file json_loads (Line line # rest) mp = Inl AttributeError"
  by (simp_all add: filter_cs_papers_file_def)







section \<open>The embedding batcher\<close>

lemma length_add_embeddings: "length (add_embeddings papers embeddings) = length papers"
  by (induction papers embeddings rule: add_embeddings.induct) simp_all

lemma nth_add_embeddings:
  "i < length papers \<Longrightarrow>
   abstract_vector (add_embeddings papers embeddings ! i) =
     (if i < length embeddings then Some (embeddings ! i) else abstract_vector (papers ! i))"
proof (induction papers embeddings arbitrary: i rule: add_embeddings.induct)
  case (1 paper papers embedding embeddings)
  then show ?case by (cases i) simp_all
next
  case (2 papers)
  then show ?case by simp
next
  case (3 embeddings)
  then show ?case by simp
qed

lemma length_encode_batches:
  assumes "\<And>s batch. length (fst (encode s batch)) = length batch"
  shows "length (fst (encode_batches encode bs (acc, s))) = length acc + length (concat bs)"
proof (induction bs arbitrary: acc s)
  case Nil
  show ?case by simp
next
  case (Cons batch rest)
  obtain es s' where call: "encode s batch = (es, s')"
    by (cases "encode s batch")
  with assms [of s batch] have "length es = length batch" by simp
  with call Cons.IH [of "acc @ es" s'] show ?case by simp
qed

lemma generate_embeddings_pos:
  "0 < b \<Longrightarrow>
   generate_embeddings encode s papers (int b) =
     Inr (add_embeddings papers
            (fst (encode_batches encode (batches (map abstract papers) b) ([], s))),
          snd (encode_batches encode (batches (map abstract papers) b) ([], s)))"
  by (simp add: generate_embeddings_def py_batches_pos split: prod.splits)

text \<open>
  Claim C5, as amended. \<^verbatim>\<open>generate_embeddings\<close> does not compare the number of vectors
  a batch returns with the number of its texts. For a positive batch size it returns
  normally whatever the service answers: the vectors of all the batches, concatenated,
  are attached to the papers in order, to as many papers as there are vectors, and the
  papers beyond them are left as they were. When the service returns one vector for
  each text of every batch, every paper gets a vector.
\<close>

theorem embedding_no_length_check:
  assumes "0 < b"
  shows "\<exists>out s'. generate_embeddings encode s papers (int b) = Inr (out, s')
     \<and> length out = length papers
     \<and> (\<forall>i < length papers.
          abstract_vector (out ! i) =
            (if i < length (fst (encode_batches encode (batches (map abstract papers) b) ([], s)))
             then Some (fst (encode_batches encode (batches (map abstract papers) b) ([], s)) ! i)
             else abstract_vector (papers ! i)))
     \<and> ((\<forall>s batch. length (fst (encode s batch)) = length batch) \<longrightarrow>
          (\<forall>i < length papers. abstract_vector (out ! i) \<noteq> None))"
proof -
  let ?all = "fst (encode_batches encode (batches (map abstract papers) b) ([], s))"
  let ?out = "add_embeddings papers ?all"
  have nth: "\<forall>i < length papers.
      abstract_vector (?out ! i) =
        (if i < length ?all then Some (?all ! i) else abstract_vector (papers ! i))"
    by (simp add: nth_add_embeddings)
  have full: "\<forall>i < length papers. abstract_vector (?out ! i) \<noteq> None"
    if ok: "\<forall>s batch. length (fst (encode s batch)) = length batch"
  proof -
    have "length ?all = length (concat (batches (map abstract papers) b))"
      using length_encode_batches [of encode "batches (map abstract papers) b" "[]" s] ok
      by simp
    also have "\<dots> = length papers"
      using assms by (simp add: concat_batches)
    finally show ?thesis
      by (simp add: nth_add_embeddings)
  qed
  show ?thesis
    using assms nth full
    by (simp only: generate_embeddings_pos) (blast intro: length_add_embeddings)
qed

lemma embedding_mismatch_example:
  "generate_embeddings (\<lambda>s batch. (take 1 (map (\<lambda>text. [0]) batch), s)) ()
     [sample_paper ''1'', sample_paper ''2'', sample_paper ''3'' :: real paper] 2
   = Inr ([(sample_paper ''1'')\<lparr>abstract_vector := Some [0]\<rparr>,
           (sample_paper ''2'')\<lparr>abstract_vector := Some [0]\<rparr>,
           sample_paper ''3''], ())"
  by (simp add: generate_embeddings_def py_batches_def py_range_def batches_at_def py_slice_def
      range_from.simps)

lemma sample_paper_vector: "abstract_vector (sample_paper pid) = None"
  by (simp add: sample_paper_def)

theorem embedding_no_length_check_witness:
  "(0::nat) < 2 \<and>
   (\<exists>out s'. generate_embeddings (\<lambda>s batch. (take 1 (map (\<lambda>text. [0]) batch), s)) ()
       [sample_paper ''1'', sample_paper ''2'', sample_paper ''3'' :: real paper] (int 2)
         = Inr (out, s')
     \<and> length out = 3
     \<and> abstract_vector (out ! 0) = Some [0]
     \<and> abstract_vector (out ! 2) = None)"
proof -
  let ?enc = "\<lambda>(s::unit) (batch :: string list). (take 1 (map (\<lambda>text. [0::real]) batch), s)"
  let ?ps = "[sample_paper ''1'', sample_paper ''2'', sample_paper ''3'' :: real paper]"
  have pos: "(0::nat) < 2" by simp
  have run: "generate_embeddings ?enc () ?ps (int 2)
     = Inr ([(sample_paper ''1'')\<lparr>abstract_vector := Some [0]\<rparr>,
             (sample_paper ''2'')\<lparr>abstract_vector := Some [0]\<rparr>,
             sample_paper ''3''], ())"
    using embedding_mismatch_example by simp
  from embedding_no_length_check [OF pos, of ?enc "()" ?ps]
  obtain out s' where out: "generate_embeddings ?enc () ?ps (int 2) = Inr (out, s')"
    and len: "length out = length ?ps"
    by blast
  from out run have "out = [(sample_paper ''1'')\<lparr>abstract_vector := Some [0]\<rparr>,
             (sample_paper ''2'')\<lparr>abstract_vector := Some [0]\<rparr>,
             sample_paper ''3'']"
    by simp
  with out len pos show ?thesis
    by (intro conjI exI [of _ out] exI [of _ s']) (simp_all add: sample_paper_vector)
qed

text \<open>
  Claim C5 as stated fails: here the service returns one vector for each batch, whatever
  its size. No error is raised; the first two papers get a vector (the second one the
  vector returned for the second batch), and the third paper is left without one.
\<close>

theorem embedding_mismatch_counterexample:
  "generate_embeddings (\<lambda>s batch. (take 1 (map (\<lambda>text. [0]) batch), s)) ()
     [sample_paper ''1'', sample_paper ''2'', sample_paper ''3'' :: real paper] 2
   = Inr ([(sample_paper ''1'')\<lparr>abstract_vector := Some [0]\<rparr>,
           (sample_paper ''2'')\<lparr>abstract_vector := Some [0]\<rparr>,
           sample_paper ''3''], ())
   \<and> abstract_vector (sample_paper ''3'' :: real paper) = None"
  by (simp only: embedding_mismatch_example sample_paper_vector simp_thms)

section \<open>The entry points\<close>

text \<open>
  Claim C9, as amended. When \<^verbatim>\<open>BATCH_SIZE\<close> (or its default) converts to an integer
  and the required input file of the embedder or of the loader does not exist,
  \<^verbatim>\<open>main\<close> logs the error and the script to run first, writes nothing and returns:
  the process exits with status 0.
\<close>

theorem missing_input_returns:
  "(py_int (dict_get (getenv ''BATCH_SIZE'') ''32'') \<noteq> None
    \<and> \<not> path_exists (path_join (dict_get (getenv ''DATA_DIR'') ''./data'') ''cs_papers.json'') \<longrightarrow>
      generate_embeddings_main getenv path_exists py_int rest =
        ([LogError (''Input file not found: ''
             @ path_join (dict_get (getenv ''DATA_DIR'') ''./data'') ''cs_papers.json''),
          LogInfo ''Please run download_dataset.py first''], Returned)
      \<and> exit_status (snd (generate_embeddings_main getenv path_exists py_int rest)) = 0
      \<and> (\<forall>f. WriteFile f \<notin> set (fst (generate_embeddings_main getenv path_exists py_int rest))))
   \<and> (py_int (dict_get (getenv ''BATCH_SIZE'') ''500'') \<noteq> None
      \<and> \<not> path_exists (path_join (dict_get (getenv ''DATA_DIR'') ''./data'')
           ''cs_papers_with_embeddings.json'') \<longrightarrow>
      ingest_data_main getenv path_exists py_int rest =
        ([LogError (''Input file not found: ''
             @ path_join (dict_get (getenv ''DATA_DIR'') ''./data'')
                 ''cs_papers_with_embeddings.json''),
          LogInfo ''Please run generate_embeddings.py first''], Returned)
      \<and> exit_status (snd (ingest_data_main getenv path_exists py_int rest)) = 0
      \<and> (\<forall>f. WriteFile f \<notin> set (fst (ingest_data_main getenv path_exists py_int rest))))"
  by (auto simp: generate_embeddings_main_def ingest_data_main_def Let_def)

text \<open>
  A \<^verbatim>\<open>BATCH_SIZE\<close> that does not convert ends \<^verbatim>\<open>main\<close> with the ValueError before
  the input file is looked for, with nothing logged.
\<close>

lemma bad_batch_size_raises:
  "py_int (dict_get (getenv ''BATCH_SIZE'') ''32'') = None \<Longrightarrow>
     generate_embeddings_main getenv path_exists py_int rest = ([], Uncaught)"
  "py_int (dict_get (getenv ''BATCH_SIZE'') ''500'') = None \<Longrightarrow>
     ingest_data_main getenv path_exists py_int rest = ([], Uncaught)"
  by (simp_all add: generate_embeddings_main_def ingest_data_main_def Let_def)

lemma missing_input_example:
  "generate_embeddings_main (\<lambda>name. None) (\<lambda>path. False)
     (\<lambda>text. if text = ''32'' then Some 32 else if text = ''500'' then Some 500 else None)
     (\<lambda>f n. ([WriteFile f], Uncaught))
     = ([LogError ''Input file not found: ./data/cs_papers.json'',
         LogInfo ''Please run download_dataset.py first''], Returned)"
  "ingest_data_main (\<lambda>name. None) (\<lambda>path. False)
     (\<lambda>text. if text = ''32'' then Some 32 else if text = ''500'' then Some 500 else None)
     (\<lambda>f n. ([WriteFile f], Uncaught))
     = ([LogError ''Input file not found: ./data/cs_papers_with_embeddings.json'',
         LogInfo ''Please run generate_embeddings.py first''], Returned)"
  by (simp_all add: generate_embeddings_main_def ingest_data_main_def Let_def dict_get_def
      path_join_def)

theorem missing_input_returns_witness:
  "(\<lambda>text. if text = ''32'' then Some (32::int) else if text = ''500'' then Some 500 else None)
      (dict_get ((\<lambda>name. None) ''BATCH_SIZE'') ''32'') \<noteq> None
   \<and> \<not> (\<lambda>path. False) (path_join (dict_get ((\<lambda>name. None) ''DATA_DIR'') ''./data'') ''cs_papers.json'')
   \<and> generate_embeddings_main (\<lambda>name. None) (\<lambda>path. False)
       (\<lambda>text. if text = ''32'' then Some 32 else if text = ''500'' then Some 500 else None)
       (\<lambda>f n. ([WriteFile f], Uncaught))
     = ([LogError ''Input file not found: ./data/cs_papers.json'',
         LogInfo ''Please run download_dataset.py first''], Returned)
   \<and> exit_status (snd (generate_embeddings_main (\<lambda>name. None) (\<lambda>path. False)
         (\<lambda>text. if text = ''32'' then Some 32 else if text = ''500'' then Some 500 else None)
         (\<lambda>f n. ([WriteFile f], Uncaught)))) = 0
   \<and> exit_status (snd (ingest_data_main (\<lambda>name. None) (\<lambda>path. False)
         (\<lambda>text. if text = ''32'' then Some 32 else if text = ''500'' then Some 500 else None)
         (\<lambda>f n. ([WriteFile f], Uncaught)))) = 0"
proof -
  let ?int = "\<lambda>text. if text = ''32'' then Some (32::int) else if text = ''500'' then Some 500 else None"
  note inst = missing_input_returns [of ?int "\<lambda>name. None" "\<lambda>path. False"
      "\<lambda>f n. ([WriteFile f], Uncaught)"]
  have a: "exit_status (snd (generate_embeddings_main (\<lambda>name. None) (\<lambda>path. False) ?int
         (\<lambda>f n. ([WriteFile f], Uncaught)))) = 0"
    using inst [THEN conjunct1] by (simp add: dict_get_def)
  have b: "exit_status (snd (ingest_data_main (\<lambda>name. None) (\<lambda>path. False) ?int
         (\<lambda>f n. ([WriteFile f], Uncaught)))) = 0"
    using inst [THEN conjunct2] by (simp add: dict_get_def)
  show ?thesis
    using a b by (simp add: missing_input_example dict_get_def)
qed

text \<open>
  Claim C9 as stated fails: with no input file (and the default batch sizes) both entry
  points end with exit status 0, not with a non-zero one.
\<close>

theorem missing_input_exit_counterexample:
  "exit_status (snd (generate_embeddings_main (\<lambda>name. None) (\<lambda>path. False)
      (\<lambda>text. if text = ''32'' then Some 32 else if text = ''500'' then Some 500 else None)
      (\<lambda>f n. ([WriteFile f], Uncaught)))) = 0
   \<and> exit_status (snd (ingest_data_main (\<lambda>name. None) (\<lambda>path. False)
      (\<lambda>text. if text = ''32'' then Some 32 else if text = ''500'' then Some 500 else None)
      (\<lambda>f n. ([WriteFile f], Uncaught)))) = 0"
  by (simp add: missing_input_example)

section \<open>Restoring a snapshot\<close>

text \<open>
  Claim C10. The restore request has both rename fields exactly when both
  \<^verbatim>\<open>rename_pattern\<close> and \<^verbatim>\<open>rename_replacement\<close> are given and not empty, and then
  they hold the values given; otherwise (also when only one of them is given) it has
  neither, so the restore targets the original index name.
\<close>

theorem restore_rename_fields:
  "((body (restore_snapshot repo_name snapshot_name indices rename_pattern rename_replacement wait)
        ''rename_pattern'' \<noteq> None
     \<and> body (restore_snapshot repo_name snapshot_name indices rename_pattern rename_replacement wait)
        ''rename_replacement'' \<noteq> None)
    = (truthy rename_pattern \<and> truthy rename_replacement))
   \<and> (truthy rename_pattern \<and> truthy rename_replacement \<longrightarrow>
        body (restore_snapshot repo_name snapshot_name indices rename_pattern rename_replacement wait)
          ''rename_pattern'' = rename_pattern
      \<and> body (restore_snapshot repo_name snapshot_name indices rename_pattern rename_replacement wait)
          ''rename_replacement'' = rename_replacement)
   \<and> (\<not> (truthy rename_pattern \<and> truthy rename_replacement) \<longrightarrow>
        body (restore_snapshot repo_name snapshot_name indices rename_pattern rename_replacement wait)
          ''rename_pattern'' = None
      \<and> body (restore_snapshot repo_name snapshot_name indices rename_pattern rename_replacement wait)
          ''rename_replacement'' = None)
   \<and> repository (restore_snapshot repo_name snapshot_name indices rename_pattern
        rename_replacement wait) = repo_name
   \<and> snapshot (restore_snapshot repo_name snapshot_name indices rename_pattern
        rename_replacement wait) = snapshot_name"
  by (auto simp: restore_snapshot_def Let_def truthy_def dict_get_def split: option.splits)

theorem restore_rename_fields_witness:
  "truthy (Some ''arxiv-papers'') \<and> \<not> truthy (None :: string option)
   \<and> body (restore_snapshot ''arxiv_backup'' ''snap1'' (Some [''arxiv-papers''])
        (Some ''arxiv-papers'') None True) ''rename_pattern'' = None
   \<and> body (restore_snapshot ''arxiv_backup'' ''snap1'' (Some [''arxiv-papers''])
        (Some ''arxiv-papers'') None True) ''rename_replacement'' = None
   \<and> body (restore_snapshot ''arxiv_backup'' ''snap1'' (Some [''arxiv-papers''])
        (Some ''arxiv-papers'') (Some ''arxiv-papers_restored'') True) ''rename_pattern''
       = Some ''arxiv-papers''
   \<and> body (restore_snapshot ''arxiv_backup'' ''snap1'' (Some [''arxiv-papers''])
        (Some ''arxiv-papers'') (Some ''arxiv-papers_restored'') True) ''rename_replacement''
       = Some ''arxiv-papers_restored''"
proof -
  have t: "truthy (Some ''arxiv-papers'')" "truthy (Some ''arxiv-papers_restored'')"
    "\<not> truthy (None :: string option)"
    by (simp_all add: truthy_def)
  note one = restore_rename_fields [of "''arxiv_backup''" "''snap1''" "Some [''arxiv-papers'']"
      "Some ''arxiv-papers''" None True]
  note both = restore_rename_fields [of "''arxiv_backup''" "''snap1''" "Some [''arxiv-papers'']"
      "Some ''arxiv-papers''" "Some ''arxiv-papers_restored''" True]
  from one t have a: "body (restore_snapshot ''arxiv_backup'' ''snap1'' (Some [''arxiv-papers''])
        (Some ''arxiv-papers'') None True) ''rename_pattern'' = None"
    and b: "body (restore_snapshot ''arxiv_backup'' ''snap1'' (Some [''arxiv-papers''])
        (Some ''arxiv-papers'') None True) ''rename_replacement'' = None"
    by blast+
  from both t have c: "body (restore_snapshot ''arxiv_backup'' ''snap1'' (Some [''arxiv-papers''])
        (Some ''arxiv-papers'') (Some ''arxiv-papers_restored'') True) ''rename_pattern''
       = Some ''arxiv-papers''"
    and d: "body (restore_snapshot ''arxiv_backup'' ''snap1'' (Some [''arxiv-papers''])
        (Some ''arxiv-papers'') (Some ''arxiv-papers_restored'') True) ''rename_replacement''
       = Some ''arxiv-papers_restored''"
    by blast+
  show ?thesis
    by (intro conjI) (rule t a b c d)+
qed

end
